theory Spec2Isabelle
  imports Complex_Main "HOL-Library.Multiset"
begin

section \<open>Data model of \<^verbatim>\<open>app/routes/home.tsx\<close>\<close>

text \<open>
  The BAC engine of the repository consists of three free functions of
  \<^verbatim>\<open>home.tsx\<close>: \<^verbatim>\<open>calculateBac\<close>, \<^verbatim>\<open>calculateChartData\<close> and
  \<^verbatim>\<open>estimateTimeUntilTarget\<close>.  Every value they handle has the TypeScript type
  \<^verbatim>\<open>number\<close>.  A \<^verbatim>\<open>number\<close> is modelled as a mathematical real: the arithmetic of
  the source is kept expression by expression, while the rounding of IEEE doubles and the
  special values \<^verbatim>\<open>Infinity\<close> and \<^verbatim>\<open>NaN\<close> (which the source only produces from a
  division by a zero weight or from overflow) are outside the model.  Theorems about
  computed levels therefore assume a positive weight, as the data model has it.
\<close>

datatype Gender = male | female

fun GENDER_CONSTANTS :: "Gender \<Rightarrow> real" where
  "GENDER_CONSTANTS male = 0.68"
| "GENDER_CONSTANTS female = 0.55"

definition METABOLISM_RATE :: real where
  "METABOLISM_RATE = 0.015"

record Drink =
  timestamp :: real
  volume :: real
  alcoholPercentage :: real

record DataPoint =
  timestamp :: real
  bac :: real
  isPeak :: bool

section \<open>\<^verbatim>\<open>calculateBac\<close>\<close>

text \<open>
  The \<^verbatim>\<open>for (const drink of drinks)\<close> loop with its accumulator \<^verbatim>\<open>result\<close>;
  \<^verbatim>\<open>continue\<close> is the branch that leaves the accumulator unchanged.
\<close>

fun calculateBac_loop :: "Gender \<Rightarrow> real \<Rightarrow> real \<Rightarrow> real \<Rightarrow> Drink list \<Rightarrow> real" where
  "calculateBac_loop gender t weight result [] = result"
| "calculateBac_loop gender t weight result (drink # drinks) =
     (if Drink.timestamp drink > t then calculateBac_loop gender t weight result drinks
      else
        let genderConstant = GENDER_CONSTANTS gender;
            hoursSinceDrink = (t - Drink.timestamp drink) / (60 * 60 * 1000);
            alcoholGrams = volume drink * (alcoholPercentage drink / 100) * 0.789;
            initialBAC = (alcoholGrams / (weight * 1000 * genderConstant)) * 100
        in calculateBac_loop gender t weight
             (result + max 0 (initialBAC - METABOLISM_RATE * hoursSinceDrink)) drinks)"

definition calculateBac :: "Drink list \<Rightarrow> Gender \<Rightarrow> real \<Rightarrow> real \<Rightarrow> real" where
  "calculateBac drinks gender t weight = calculateBac_loop gender t weight 0 drinks"

section \<open>\<^verbatim>\<open>calculateChartData\<close>\<close>

text \<open>
  One iteration of the loop over \<^verbatim>\<open>sortedDrinks\<close>.  The state is the pair of the
  array \<^verbatim>\<open>result\<close> (each \<^verbatim>\<open>push\<close> appends at the end) and the variable
  \<^verbatim>\<open>currentBac\<close>.  \<^verbatim>\<open>sortedDrinks.find\<close> searches the whole sorted array from its
  start, whatever the position of the current drink.
\<close>

definition chart_step ::
  "Drink list \<Rightarrow> Gender \<Rightarrow> real \<Rightarrow> real \<Rightarrow> DataPoint list \<times> real \<Rightarrow> Drink
     \<Rightarrow> DataPoint list \<times> real" where
  "chart_step sortedDrinks gender now weight st drink =
     (let result0 = fst st;
          currentBac0 = snd st;
          result1 = result0 @
            [\<lparr>timestamp = Drink.timestamp drink, bac = currentBac0, isPeak = False\<rparr>];
          genderConstant = GENDER_CONSTANTS gender;
          alcoholGrams = volume drink * (alcoholPercentage drink / 100) * 0.789;
          bacIncrease = (alcoholGrams / (weight * 1000 * genderConstant)) * 100;
          currentBac1 = currentBac0 + bacIncrease;
          result2 = result1 @
            [\<lparr>timestamp = Drink.timestamp drink, bac = currentBac1, isPeak = False\<rparr>];
          hoursUntilZero = currentBac1 / METABOLISM_RATE;
          timeUntilZero = hoursUntilZero * 60 * 60 * 1000;
          zeroTime = Drink.timestamp drink + timeUntilZero
      in case List.find (\<lambda>d. Drink.timestamp d > Drink.timestamp drink) sortedDrinks of
           Some nextDrink \<Rightarrow>
             (let hoursTillNextDrink =
                    (Drink.timestamp nextDrink - Drink.timestamp drink) / (60 * 60 * 1000)
              in (result2, max 0 (currentBac1 - METABOLISM_RATE * hoursTillNextDrink)))
         | None \<Rightarrow>
             if now > Drink.timestamp drink then
               (let hoursSinceDrink = (now - Drink.timestamp drink) / (60 * 60 * 1000);
                    currentBac2 = max 0 (currentBac1 - METABOLISM_RATE * hoursSinceDrink);
                    result3 = result2 @
                      [\<lparr>timestamp = now, bac = currentBac2, isPeak = False\<rparr>]
                in if currentBac2 > 0
                   then (result3 @ [\<lparr>timestamp = zeroTime, bac = 0, isPeak = False\<rparr>],
                         currentBac2)
                   else (result3, currentBac2))
             else (result2 @ [\<lparr>timestamp = zeroTime, bac = 0, isPeak = False\<rparr>],
                   currentBac1))"

fun chart_loop ::
  "Drink list \<Rightarrow> Gender \<Rightarrow> real \<Rightarrow> real \<Rightarrow> DataPoint list \<times> real \<Rightarrow> Drink list
     \<Rightarrow> DataPoint list \<times> real" where
  "chart_loop sortedDrinks gender now weight st [] = st"
| "chart_loop sortedDrinks gender now weight st (drink # drinks) =
     chart_loop sortedDrinks gender now weight
       (chart_step sortedDrinks gender now weight st drink) drinks"

text \<open>
  \<^verbatim>\<open>[...drinks].sort((a, b) => a.timestamp - b.timestamp)\<close>: the sort of a copy of the
  array is stable (ECMAScript 2019), so it is the stable insertion sort by the key
  \<^verbatim>\<open>timestamp\<close>.
\<close>

definition calculateChartData :: "Drink list \<Rightarrow> Gender \<Rightarrow> real \<Rightarrow> real \<Rightarrow> DataPoint list" where
  "calculateChartData drinks gender now weight =
     (let sortedDrinks = sort_key Drink.timestamp drinks
      in if length sortedDrinks = 0 then []
         else fst (chart_loop sortedDrinks gender now weight ([], 0) sortedDrinks))"

section \<open>\<^verbatim>\<open>estimateTimeUntilTarget\<close>\<close>

definition estimateTimeUntilTarget :: "real \<Rightarrow> real \<Rightarrow> real" where
  "estimateTimeUntilTarget currentBac targetBac =
     (if currentBac \<le> targetBac then 0
      else ((currentBac - targetBac) / METABOLISM_RATE) * 60 * 60 * 1000)"

section \<open>Auxiliary definitions for the proofs\<close>

text \<open>
  What one iteration of the loop of \<^verbatim>\<open>calculateBac\<close> adds to \<^verbatim>\<open>result\<close>: nothing
  for a drink after the query time, the floored linear decay otherwise.
\<close>

definition contribution :: "Gender \<Rightarrow> real \<Rightarrow> real \<Rightarrow> Drink \<Rightarrow> real" where
  "contribution gender t weight drink =
     (if Drink.timestamp drink > t then 0
      else max 0 ((volume drink * (alcoholPercentage drink / 100) * 0.789
                     / (weight * 1000 * GENDER_CONSTANTS gender)) * 100
                  - METABOLISM_RATE * ((t - Drink.timestamp drink) / (60 * 60 * 1000))))"

text \<open>
  The Widmark increase \<^verbatim>\<open>bacIncrease\<close> that \<^verbatim>\<open>calculateChartData\<close> adds to
  \<^verbatim>\<open>currentBac\<close> for one drink (the same expression as \<^verbatim>\<open>initialBAC\<close>).
\<close>

definition bacIncrease_of :: "Gender \<Rightarrow> real \<Rightarrow> Drink \<Rightarrow> real" where
  "bacIncrease_of gender weight drink =
     (volume drink * (alcoholPercentage drink / 100) * 0.789
        / (weight * 1000 * GENDER_CONSTANTS gender)) * 100"

section \<open>Properties of \<^verbatim>\<open>calculateBac\<close>\<close>

lemma calculateBac_loop_sum:
  "calculateBac_loop gender t weight result drinks =
     result + sum_list (map (contribution gender t weight) drinks)"
  by (induction drinks arbitrary: result) (simp_all add: contribution_def Let_def ac_simps)

lemma calculateBac_sum:
  "calculateBac drinks gender t weight = sum_list (map (contribution gender t weight) drinks)"
  by (simp add: calculateBac_def calculateBac_loop_sum)

lemma contribution_nonneg: "0 \<le> contribution gender t weight drink"
  by (simp add: contribution_def)

lemma contribution_future:
  "t < Drink.timestamp drink \<Longrightarrow> contribution gender t weight drink = 0"
  by (simp add: contribution_def)

lemma contribution_antimono:
  assumes "t1 \<le> t2" and "\<not> (t1 < Drink.timestamp drink \<and> Drink.timestamp drink \<le> t2)"
  shows "contribution gender t2 weight drink \<le> contribution gender t1 weight drink"
  using assms by (auto simp: contribution_def METABOLISM_RATE_def max_def)

lemma GENDER_CONSTANTS_pos: "0 < GENDER_CONSTANTS gender"
  by (cases gender) simp_all

text \<open>
  Claim C4.  A single drink evaluated at its own timestamp, with non-negative volume and
  alcohol percentage (the data model has them positive) and a positive weight:
  \<^verbatim>\<open>calculateBac\<close> returns the Widmark peak
  \<^verbatim>\<open>(volume * (alcoholPercentage / 100) * 0.789) / (weight * 1000 * r) * 100\<close>, where
  \<^verbatim>\<open>r\<close> is 0.68 for male and 0.55 for female.  Scenario A (500 ml, 5 percent, male,
  75 kg) gives 0.0387 to four decimal places.
\<close>

theorem calculateBac_single_at_own_time:
  "(0 < weight \<and> 0 \<le> volume d \<and> 0 \<le> alcoholPercentage d \<longrightarrow>
      calculateBac [d] gender (Drink.timestamp d) weight =
        (volume d * (alcoholPercentage d / 100) * 0.789)
          / (weight * 1000 * GENDER_CONSTANTS gender) * 100)
   \<and> GENDER_CONSTANTS male = 0.68 \<and> GENDER_CONSTANTS female = 0.55
   \<and> \<bar>calculateBac [\<lparr>Drink.timestamp = T, volume = 500, alcoholPercentage = 5\<rparr>] male T 75
        - 0.0387\<bar> < 0.00005"
proof -
  have "calculateBac [d] gender (Drink.timestamp d) weight =
        (volume d * (alcoholPercentage d / 100) * 0.789)
          / (weight * 1000 * GENDER_CONSTANTS gender) * 100"
    if "0 < weight" "0 \<le> volume d" "0 \<le> alcoholPercentage d"
  proof -
    from that GENDER_CONSTANTS_pos [of gender]
    have "0 \<le> (volume d * (alcoholPercentage d / 100) * 0.789)
             / (weight * 1000 * GENDER_CONSTANTS gender) * 100"
      by (simp add: divide_nonneg_pos)
    then show ?thesis by (simp add: calculateBac_sum contribution_def)
  qed
  moreover have
    "\<bar>calculateBac [\<lparr>Drink.timestamp = T, volume = 500, alcoholPercentage = 5\<rparr>] male T 75
        - 0.0387\<bar> < 0.00005"
    by (simp add: calculateBac_sum contribution_def)
  ultimately show ?thesis by simp
qed

theorem calculateBac_single_at_own_time_witness:
  "(0::real) < 60 \<and> (0::real) \<le> 330 \<and> (0::real) \<le> 12
   \<and> calculateBac [\<lparr>Drink.timestamp = 1000, volume = 330, alcoholPercentage = 12\<rparr>]
        female 1000 60 = 2367 / 25000"
  using calculateBac_single_at_own_time
    [of 60 "\<lparr>Drink.timestamp = 1000, volume = 330, alcoholPercentage = 12\<rparr>" female 0]
  by simp

text \<open>
  Claim C5.  \<^verbatim>\<open>estimateTimeUntilTarget\<close> returns 0 when the current level is at or
  below the target, and \<^verbatim>\<open>((currentBac - targetBac) / 0.015) * 3600000\<close> otherwise;
  from 0.08 down to 0.05 it takes 7200000 milliseconds.
\<close>

theorem estimateTimeUntilTarget_spec:
  "estimateTimeUntilTarget currentBac targetBac =
     (if currentBac \<le> targetBac then 0
      else ((currentBac - targetBac) / 0.015) * 3600000)
   \<and> estimateTimeUntilTarget 0.08 0.05 = 7200000"
  by (simp add: estimateTimeUntilTarget_def METABOLISM_RATE_def)

theorem estimateTimeUntilTarget_spec_witness:
  "estimateTimeUntilTarget 0.02 0.05 = 0 \<and> estimateTimeUntilTarget 0.05 0.05 = 0
   \<and> estimateTimeUntilTarget 0.065 0.05 = 3600000"
  using estimateTimeUntilTarget_spec [of "0.02" "0.05"]
    estimateTimeUntilTarget_spec [of "0.05" "0.05"]
    estimateTimeUntilTarget_spec [of "0.065" "0.05"]
  by simp

text \<open>
  Claim C6.  \<^verbatim>\<open>calculateBac\<close> returns 0 on the empty collection, and returns 0
  whenever every drink is timestamped strictly after the query time.
\<close>

theorem calculateBac_zero_before_first_drink:
  "calculateBac [] gender t weight = 0 \<and>
   ((\<forall>d \<in> set drinks. t < Drink.timestamp d) \<longrightarrow> calculateBac drinks gender t weight = 0)"
proof -
  have "(\<forall>d \<in> set drinks. t < Drink.timestamp d) \<Longrightarrow>
          sum_list (map (contribution gender t weight) drinks) = 0"
    by (induction drinks) (simp_all add: contribution_future)
  then show ?thesis by (auto simp: calculateBac_sum)
qed

theorem calculateBac_zero_before_first_drink_witness:
  "(4999::real) < 5000 \<and> (4999::real) < 9000
   \<and> calculateBac [\<lparr>Drink.timestamp = 5000, volume = 500, alcoholPercentage = 5\<rparr>,
                   \<lparr>Drink.timestamp = 9000, volume = 40, alcoholPercentage = 40\<rparr>]
        male 4999 75 = 0"
  using calculateBac_zero_before_first_drink
    [of male 4999 75 "[\<lparr>Drink.timestamp = 5000, volume = 500, alcoholPercentage = 5\<rparr>,
                       \<lparr>Drink.timestamp = 9000, volume = 40, alcoholPercentage = 40\<rparr>]"]
  by simp

text \<open>
  Claim C7.  Between event times \<^verbatim>\<open>calculateBac\<close> only decays: for a positive weight
  and query times \<open>t1 \<le> t2\<close> with no drink timestamped in the half-open interval
  \<open>(t1, t2]\<close>, the level at \<open>t2\<close> is at most the level at \<open>t1\<close>.
\<close>

theorem calculateBac_nonincreasing_between_events:
  assumes "0 < weight" and "t1 \<le> t2"
    and "\<forall>d \<in> set drinks. \<not> (t1 < Drink.timestamp d \<and> Drink.timestamp d \<le> t2)"
  shows "calculateBac drinks gender t2 weight \<le> calculateBac drinks gender t1 weight"
  unfolding calculateBac_sum
  using assms(3)
  by (induction drinks) (auto intro!: add_mono contribution_antimono [OF assms(2)])

theorem calculateBac_nonincreasing_between_events_witness:
  "(0::real) < 75 \<and> (3600000::real) \<le> 7200000
   \<and> \<not> ((3600000::real) < 0 \<and> (0::real) \<le> 7200000)
   \<and> \<not> ((3600000::real) < 9000000 \<and> (9000000::real) \<le> 7200000)
   \<and> calculateBac [\<lparr>Drink.timestamp = 0, volume = 500, alcoholPercentage = 5\<rparr>,
                   \<lparr>Drink.timestamp = 9000000, volume = 40, alcoholPercentage = 40\<rparr>]
        male 7200000 75
      \<le> calculateBac [\<lparr>Drink.timestamp = 0, volume = 500, alcoholPercentage = 5\<rparr>,
                      \<lparr>Drink.timestamp = 9000000, volume = 40, alcoholPercentage = 40\<rparr>]
        male 3600000 75"
proof -
  have h1: "(0::real) < 75" and h2: "(3600000::real) \<le> 7200000" by simp_all
  have h3: "\<forall>d \<in> set [\<lparr>Drink.timestamp = 0, volume = 500, alcoholPercentage = 5\<rparr>,
                   \<lparr>Drink.timestamp = 9000000, volume = 40, alcoholPercentage = 40\<rparr>].
         \<not> ((3600000::real) < Drink.timestamp d \<and> Drink.timestamp d \<le> 7200000)"
    by simp
  show ?thesis
    using calculateBac_nonincreasing_between_events [OF h1 h2 h3, of male]
    by simp
qed

text \<open>
  Claim C8.  With non-negative volumes and alcohol percentages and a positive weight,
  \<^verbatim>\<open>calculateBac\<close> never returns a negative level: every iteration adds an amount
  floored at 0, so the accumulator never drops below its previous value.
\<close>

theorem calculateBac_nonneg:
  assumes "\<forall>d \<in> set drinks. 0 \<le> volume d \<and> 0 \<le> alcoholPercentage d" and "0 < weight"
  shows "0 \<le> calculateBac drinks gender t weight \<and>
         (\<forall>result. result \<le> calculateBac_loop gender t weight result drinks)"
proof -
  have "0 \<le> sum_list (map (contribution gender t weight) drinks)"
    by (rule sum_list_nonneg) (auto simp: contribution_nonneg)
  then show ?thesis by (simp add: calculateBac_sum calculateBac_loop_sum)
qed

theorem calculateBac_nonneg_witness:
  "(0::real) \<le> 500 \<and> (0::real) \<le> 5 \<and> (0::real) < 75
   \<and> 0 \<le> calculateBac [\<lparr>Drink.timestamp = 0, volume = 500, alcoholPercentage = 5\<rparr>]
            male 18000000 75"
proof -
  have h1: "\<forall>d \<in> set [\<lparr>Drink.timestamp = 0, volume = 500, alcoholPercentage = 5\<rparr>].
       0 \<le> volume d \<and> 0 \<le> alcoholPercentage d"
    by simp
  have h2: "(0::real) < 75" by simp
  show ?thesis
    using calculateBac_nonneg [OF h1 h2, of male 18000000]
    by simp
qed

section \<open>Properties of \<^verbatim>\<open>calculateChartData\<close>\<close>

subsection \<open>The loop and its last iteration\<close>

lemma chart_loop_append:
  "chart_loop sd g n w st (xs @ ys) = chart_loop sd g n w (chart_loop sd g n w st xs) ys"
  by (induction xs arbitrary: st) simp_all

lemma find_later_last_None:
  assumes "sorted (map Drink.timestamp (ys @ [d]))"
  shows "List.find (\<lambda>x. Drink.timestamp x > Drink.timestamp d) (ys @ [d]) = None"
  using assms by (auto simp: find_None_iff sorted_append)

lemma sort_key_snoc:
  assumes "drinks \<noteq> []"
  obtains ys d where "sort_key Drink.timestamp drinks = ys @ [d]"
proof -
  from assms have "sort_key Drink.timestamp drinks \<noteq> []"
    by (metis length_sort length_0_conv)
  then show ?thesis using that by (meson rev_exhaust)
qed

lemma calculateChartData_last_step:
  assumes "sort_key Drink.timestamp drinks = ys @ [d]"
  shows "calculateChartData drinks gender now weight =
           fst (chart_step (ys @ [d]) gender now weight
                  (chart_loop (ys @ [d]) gender now weight ([], 0) ys) d)"
  by (simp add: calculateChartData_def Let_def assms chart_loop_append)

lemma sorted_distinct_last_greatest:
  assumes "sorted (map Drink.timestamp (ys @ [d]))"
    and "distinct (map Drink.timestamp (ys @ [d]))"
  shows "\<forall>y \<in> set ys. Drink.timestamp y < Drink.timestamp d"
proof
  fix y assume y: "y \<in> set ys"
  with assms(1) have "Drink.timestamp y \<le> Drink.timestamp d"
    by (auto simp: sorted_append)
  moreover from assms(2) have "Drink.timestamp d \<notin> Drink.timestamp ` set ys" by simp
  with y have "Drink.timestamp y \<noteq> Drink.timestamp d" by (metis imageI)
  ultimately show "Drink.timestamp y < Drink.timestamp d" by simp
qed

text \<open>An iteration that finds a later drink pushes the two samples at the drink's time.\<close>

lemma chart_step_Some:
  assumes "List.find (\<lambda>x. Drink.timestamp x > Drink.timestamp d) sd = Some nx"
  shows "map DataPoint.timestamp (fst (chart_step sd g n w st d)) =
           map DataPoint.timestamp (fst st) @ [Drink.timestamp d, Drink.timestamp d]"
    and "0 \<le> snd (chart_step sd g n w st d)"
  using assms by (simp_all add: chart_step_def Let_def)

lemma chart_loop_prefix:
  assumes "\<forall>y \<in> set ys. List.find (\<lambda>x. Drink.timestamp x > Drink.timestamp y) sd \<noteq> None"
    and "0 \<le> snd st"
  shows "map DataPoint.timestamp (fst (chart_loop sd g n w st ys)) =
           map DataPoint.timestamp (fst st)
             @ concat (map (\<lambda>y. [Drink.timestamp y, Drink.timestamp y]) ys)
         \<and> 0 \<le> snd (chart_loop sd g n w st ys)"
  using assms
proof (induction ys arbitrary: st)
  case Nil
  then show ?case by simp
next
  case (Cons y ys)
  from Cons.prems(1) obtain nx
    where nx: "List.find (\<lambda>x. Drink.timestamp x > Drink.timestamp y) sd = Some nx"
    by auto
  have "0 \<le> snd (chart_step sd g n w st y)"
    by (rule chart_step_Some(2) [OF nx])
  with Cons.IH [of "chart_step sd g n w st y"] Cons.prems(1)
  show ?case by (simp add: chart_step_Some(1) [OF nx])
qed

subsection \<open>The flag \<^verbatim>\<open>isPeak\<close>\<close>

lemma chart_step_isPeak:
  assumes "\<forall>p \<in> set (fst st). \<not> isPeak p"
  shows "\<forall>p \<in> set (fst (chart_step sd g n w st d)). \<not> isPeak p"
  using assms by (auto simp: chart_step_def Let_def split: option.splits)

lemma chart_loop_isPeak:
  assumes "\<forall>p \<in> set (fst st). \<not> isPeak p"
  shows "\<forall>p \<in> set (fst (chart_loop sd g n w st ds)). \<not> isPeak p"
  using assms
proof (induction ds arbitrary: st)
  case Nil
  then show ?case by simp
next
  case (Cons d ds)
  from Cons.prems have "\<forall>p \<in> set (fst (chart_step sd g n w st d)). \<not> isPeak p"
    by (rule chart_step_isPeak)
  then show ?case by (simp add: Cons.IH)
qed

text \<open>
  Claim C10.  Whatever the drinks, the profile and the instant \<^verbatim>\<open>now\<close>, every sample
  that \<^verbatim>\<open>calculateChartData\<close> returns has \<^verbatim>\<open>isPeak\<close> equal to false.
\<close>

theorem calculateChartData_isPeak_False:
  "\<forall>p \<in> set (calculateChartData drinks gender now weight). isPeak p = False"
proof -
  have "\<forall>p \<in> set (fst (chart_loop sd gender now weight ([], 0) sd)). \<not> isPeak p" for sd
    by (rule chart_loop_isPeak) simp
  then show ?thesis by (simp add: calculateChartData_def Let_def)
qed

theorem calculateChartData_isPeak_False_witness:
  "calculateChartData [\<lparr>Drink.timestamp = 0, volume = 510, alcoholPercentage = 5\<rparr>]
      male 3600000 75 \<noteq> []
   \<and> isPeak (last (calculateChartData
        [\<lparr>Drink.timestamp = 0, volume = 510, alcoholPercentage = 5\<rparr>] male 3600000 75))
      = False"
proof -
  have ne: "calculateChartData [\<lparr>Drink.timestamp = 0, volume = 510, alcoholPercentage = 5\<rparr>]
      male 3600000 75 \<noteq> []"
    by (simp add: calculateChartData_def chart_step_def Let_def METABOLISM_RATE_def)
  then have "last (calculateChartData
        [\<lparr>Drink.timestamp = 0, volume = 510, alcoholPercentage = 5\<rparr>] male 3600000 75)
      \<in> set (calculateChartData
        [\<lparr>Drink.timestamp = 0, volume = 510, alcoholPercentage = 5\<rparr>] male 3600000 75)"
    by (rule last_in_set)
  with ne show ?thesis
    using calculateChartData_isPeak_False
      [of "[\<lparr>Drink.timestamp = 0, volume = 510, alcoholPercentage = 5\<rparr>]" male 3600000 75]
    by blast
qed

subsection \<open>The curve closes at zero\<close>

lemma chart_step_last_zero:
  assumes "List.find (\<lambda>x. Drink.timestamp x > Drink.timestamp d) sd = None"
  shows "fst (chart_step sd g n w st d) \<noteq> [] \<and>
         bac (last (fst (chart_step sd g n w st d))) = 0"
  using assms by (auto simp: chart_step_def Let_def max_def)

text \<open>
  The samples that the iteration of a drink without a later drink pushes: the two samples
  at the drink's time, then the sample at \<^verbatim>\<open>now\<close> (followed by the sample
  \<^verbatim>\<open>(zeroTime, 0)\<close> when the level at \<^verbatim>\<open>now\<close> is still positive) if the drink lies
  before \<^verbatim>\<open>now\<close>, and the sample \<^verbatim>\<open>(zeroTime, 0)\<close> alone otherwise.
\<close>

lemma chart_step_None_shape:
  assumes "List.find (\<lambda>x. Drink.timestamp x > Drink.timestamp d) sd = None"
  shows "fst (chart_step sd g n w st d) =
           fst st
           @ [\<lparr>DataPoint.timestamp = Drink.timestamp d, bac = snd st, isPeak = False\<rparr>,
              \<lparr>DataPoint.timestamp = Drink.timestamp d,
                 bac = snd st + bacIncrease_of g w d, isPeak = False\<rparr>]
           @ (if n > Drink.timestamp d
              then \<lparr>DataPoint.timestamp = n,
                      bac = max 0 (snd st + bacIncrease_of g w d
                              - METABOLISM_RATE * ((n - Drink.timestamp d) / (60 * 60 * 1000))),
                      isPeak = False\<rparr>
                   # (if max 0 (snd st + bacIncrease_of g w d
                              - METABOLISM_RATE * ((n - Drink.timestamp d) / (60 * 60 * 1000)))
                         > 0
                      then [\<lparr>DataPoint.timestamp = Drink.timestamp d
                                + (snd st + bacIncrease_of g w d) / METABOLISM_RATE
                                  * 60 * 60 * 1000,
                              bac = 0, isPeak = False\<rparr>]
                      else [])
              else [\<lparr>DataPoint.timestamp = Drink.timestamp d
                        + (snd st + bacIncrease_of g w d) / METABOLISM_RATE * 60 * 60 * 1000,
                      bac = 0, isPeak = False\<rparr>])"
  using assms by (simp add: chart_step_def Let_def bacIncrease_of_def ac_simps)

text \<open>
  Claim C9.  For a non-empty collection of drinks, a profile (of positive weight) and any
  instant \<^verbatim>\<open>now\<close>, the sequence returned by \<^verbatim>\<open>calculateChartData\<close> is non-empty
  and its last sample has level 0.  The curve closes where the code projects it: let
  \<open>d\<close> be the last drink of the sorted array, \<open>c0\<close> the running level before it,
  \<open>c\<close> that level plus the drink's Widmark increase,
  \<open>zeroTime = timestamp d + c / 0.015 * 3600000\<close> and \<open>lvl\<close> the level \<open>c\<close>
  decayed to \<^verbatim>\<open>now\<close> and floored at 0.  The sequence ends with the samples
  \<open>(timestamp d, c0)\<close>, \<open>(timestamp d, c)\<close> followed by \<open>(now, lvl)\<close> and, if
  \<open>lvl\<close> is positive, \<open>(zeroTime, 0)\<close> when the drink lies before \<^verbatim>\<open>now\<close>, and
  by \<open>(zeroTime, 0)\<close> alone otherwise.  So the last sample is \<open>(now, 0)\<close> when the
  drink lies before \<^verbatim>\<open>now\<close> and the level has already decayed to 0, and
  \<open>(zeroTime, 0)\<close> in every other case.
\<close>

theorem calculateChartData_closes_at_zero:
  assumes "drinks \<noteq> []" and "0 < weight"
  shows "calculateChartData drinks gender now weight \<noteq> [] \<and>
         bac (last (calculateChartData drinks gender now weight)) = 0 \<and>
         (\<exists>pre c0.
            let d = last (sort_key Drink.timestamp drinks);
                c = c0 + bacIncrease_of gender weight d;
                lvl = max 0 (c - METABOLISM_RATE
                                   * ((now - Drink.timestamp d) / (60 * 60 * 1000)));
                zeroTime = Drink.timestamp d + c / METABOLISM_RATE * 60 * 60 * 1000
            in calculateChartData drinks gender now weight =
                 pre @ [\<lparr>DataPoint.timestamp = Drink.timestamp d, bac = c0,
                          isPeak = False\<rparr>,
                        \<lparr>DataPoint.timestamp = Drink.timestamp d, bac = c,
                          isPeak = False\<rparr>]
                     @ (if now > Drink.timestamp d
                        then \<lparr>DataPoint.timestamp = now, bac = lvl, isPeak = False\<rparr>
                             # (if lvl > 0
                                then [\<lparr>DataPoint.timestamp = zeroTime, bac = 0,
                                        isPeak = False\<rparr>]
                                else [])
                        else [\<lparr>DataPoint.timestamp = zeroTime, bac = 0, isPeak = False\<rparr>])
               \<and> last (calculateChartData drinks gender now weight) =
                   \<lparr>DataPoint.timestamp =
                      (if now > Drink.timestamp d \<and> \<not> lvl > 0 then now else zeroTime),
                    bac = 0, isPeak = False\<rparr>)"
proof -
  from assms(1) obtain ys d where sd: "sort_key Drink.timestamp drinks = ys @ [d]"
    by (rule sort_key_snoc)
  have "sorted (map Drink.timestamp (ys @ [d]))"
    using sorted_sort_key [of Drink.timestamp drinks] by (simp add: sd)
  then have none: "List.find (\<lambda>x. Drink.timestamp x > Drink.timestamp d) (ys @ [d]) = None"
    by (rule find_later_last_None)
  define st where "st = chart_loop (ys @ [d]) gender now weight ([], 0) ys"
  have res: "calculateChartData drinks gender now weight =
               fst (chart_step (ys @ [d]) gender now weight st d)"
    unfolding st_def by (rule calculateChartData_last_step [OF sd])
  have d: "last (sort_key Drink.timestamp drinks) = d" by (simp add: sd)
  have zero: "calculateChartData drinks gender now weight \<noteq> [] \<and>
         bac (last (calculateChartData drinks gender now weight)) = 0"
    unfolding res using none by (rule chart_step_last_zero)
  have shape:
    "let d = last (sort_key Drink.timestamp drinks);
         c = snd st + bacIncrease_of gender weight d;
         lvl = max 0 (c - METABOLISM_RATE
                            * ((now - Drink.timestamp d) / (60 * 60 * 1000)));
         zeroTime = Drink.timestamp d + c / METABOLISM_RATE * 60 * 60 * 1000
     in calculateChartData drinks gender now weight =
          fst st @ [\<lparr>DataPoint.timestamp = Drink.timestamp d, bac = snd st,
                      isPeak = False\<rparr>,
                    \<lparr>DataPoint.timestamp = Drink.timestamp d, bac = c,
                      isPeak = False\<rparr>]
              @ (if now > Drink.timestamp d
                 then \<lparr>DataPoint.timestamp = now, bac = lvl, isPeak = False\<rparr>
                      # (if lvl > 0
                         then [\<lparr>DataPoint.timestamp = zeroTime, bac = 0,
                                 isPeak = False\<rparr>]
                         else [])
                 else [\<lparr>DataPoint.timestamp = zeroTime, bac = 0, isPeak = False\<rparr>])
        \<and> last (calculateChartData drinks gender now weight) =
            \<lparr>DataPoint.timestamp =
               (if now > Drink.timestamp d \<and> \<not> lvl > 0 then now else zeroTime),
             bac = 0, isPeak = False\<rparr>"
    unfolding d res chart_step_None_shape [OF none] Let_def
    by (auto simp: max_def)
  from zero shape show ?thesis by blast
qed

theorem calculateChartData_closes_at_zero_witness:
  "[\<lparr>Drink.timestamp = 0, volume = 510, alcoholPercentage = 5\<rparr>,
    \<lparr>Drink.timestamp = 3600000, volume = 510, alcoholPercentage = 5\<rparr>] \<noteq> []
   \<and> (0::real) < 75
   \<and> calculateChartData [\<lparr>Drink.timestamp = 0, volume = 510, alcoholPercentage = 5\<rparr>,
         \<lparr>Drink.timestamp = 3600000, volume = 510, alcoholPercentage = 5\<rparr>]
        male 7200000 75 \<noteq> []
   \<and> bac (last (calculateChartData
         [\<lparr>Drink.timestamp = 0, volume = 510, alcoholPercentage = 5\<rparr>,
          \<lparr>Drink.timestamp = 3600000, volume = 510, alcoholPercentage = 5\<rparr>]
         male 7200000 75)) = 0
   \<and> DataPoint.timestamp (last (calculateChartData
         [\<lparr>Drink.timestamp = 0, volume = 510, alcoholPercentage = 5\<rparr>,
          \<lparr>Drink.timestamp = 3600000, volume = 510, alcoholPercentage = 5\<rparr>]
         male 7200000 75)) = 18936000
   \<and> [\<lparr>Drink.timestamp = 0, volume = 510, alcoholPercentage = 5\<rparr>] \<noteq> []
   \<and> bac (last (calculateChartData
         [\<lparr>Drink.timestamp = 0, volume = 510, alcoholPercentage = 5\<rparr>]
         male 18000000 75)) = 0
   \<and> DataPoint.timestamp (last (calculateChartData
         [\<lparr>Drink.timestamp = 0, volume = 510, alcoholPercentage = 5\<rparr>]
         male 18000000 75)) = 18000000"
proof -
  have h1: "[\<lparr>Drink.timestamp = 0, volume = 510, alcoholPercentage = 5\<rparr>,
    \<lparr>Drink.timestamp = 3600000, volume = 510, alcoholPercentage = 5\<rparr>] \<noteq> []"
    by simp
  have h1': "[\<lparr>Drink.timestamp = 0, volume = 510, alcoholPercentage = 5\<rparr>] \<noteq> []"
    by simp
  have h2: "(0::real) < 75" by simp
  have t1: "DataPoint.timestamp (last (calculateChartData
         [\<lparr>Drink.timestamp = 0, volume = 510, alcoholPercentage = 5\<rparr>,
          \<lparr>Drink.timestamp = 3600000, volume = 510, alcoholPercentage = 5\<rparr>]
         male 7200000 75)) = 18936000"
    by (simp add: calculateChartData_def chart_step_def Let_def METABOLISM_RATE_def)
  have t2: "DataPoint.timestamp (last (calculateChartData
         [\<lparr>Drink.timestamp = 0, volume = 510, alcoholPercentage = 5\<rparr>]
         male 18000000 75)) = 18000000"
    by (simp add: calculateChartData_def chart_step_def Let_def METABOLISM_RATE_def)
  show ?thesis
    using calculateChartData_closes_at_zero [OF h1 h2, of male 7200000]
      calculateChartData_closes_at_zero [OF h1' h2, of male 18000000] t1 t2
    by simp
qed

subsection \<open>Permutations of the drinks\<close>

text \<open>
  Claim C2, as stated, fails.  Two drinks of the same timestamp keep their input order
  through the stable sort, so swapping them changes the samples: with 510 ml first the
  second sample has level 789/20000, with 340 ml first it has level 263/10000.
\<close>

theorem calculateChartData_permutation_counterexample:
  "mset [\<lparr>Drink.timestamp = 0, volume = 510, alcoholPercentage = 5\<rparr>,
         \<lparr>Drink.timestamp = 0, volume = 340, alcoholPercentage = 5\<rparr>]
     = mset [\<lparr>Drink.timestamp = 0, volume = 340, alcoholPercentage = 5\<rparr>,
             \<lparr>Drink.timestamp = 0, volume = 510, alcoholPercentage = 5\<rparr>]
   \<and> bac (calculateChartData
            [\<lparr>Drink.timestamp = 0, volume = 510, alcoholPercentage = 5\<rparr>,
             \<lparr>Drink.timestamp = 0, volume = 340, alcoholPercentage = 5\<rparr>] male 0 75 ! 1)
       = 789 / 20000
   \<and> bac (calculateChartData
            [\<lparr>Drink.timestamp = 0, volume = 340, alcoholPercentage = 5\<rparr>,
             \<lparr>Drink.timestamp = 0, volume = 510, alcoholPercentage = 5\<rparr>] male 0 75 ! 1)
       = 263 / 10000
   \<and> calculateChartData
            [\<lparr>Drink.timestamp = 0, volume = 510, alcoholPercentage = 5\<rparr>,
             \<lparr>Drink.timestamp = 0, volume = 340, alcoholPercentage = 5\<rparr>] male 0 75
       \<noteq> calculateChartData
            [\<lparr>Drink.timestamp = 0, volume = 340, alcoholPercentage = 5\<rparr>,
             \<lparr>Drink.timestamp = 0, volume = 510, alcoholPercentage = 5\<rparr>] male 0 75"
  by (simp add: calculateChartData_def chart_step_def Let_def METABOLISM_RATE_def)

lemma sort_key_eq_if_ties_in_order:
  assumes "mset xs = mset ys"
    and "\<forall>k. filter (\<lambda>x. f x = k) xs = filter (\<lambda>x. f x = k) ys"
  shows "sort_key f xs = sort_key f ys"
proof (rule properties_for_sort_key)
  show "mset (sort_key f ys) = mset xs" using assms(1) by simp
  show "sorted (map f (sort_key f ys))" by (rule sorted_sort_key)
  show "filter (\<lambda>x. f k = f x) (sort_key f ys) = filter (\<lambda>x. f k = f x) xs" for k
  proof -
    have "filter (\<lambda>x. f k = f x) zs = filter (\<lambda>x. f x = f k) zs" for zs
      by (rule filter_cong) auto
    then show ?thesis using assms(2) by (simp add: sort_key_stable)
  qed
qed

text \<open>
  With pairwise distinct timestamps the sorted array is the same for every permutation
  of the drinks, and so is the chart.
\<close>

lemma calculateChartData_permutation_if_distinct:
  assumes "mset drinks1 = mset drinks2" and "distinct (map Drink.timestamp drinks1)"
  shows "calculateChartData drinks1 gender now weight =
         calculateChartData drinks2 gender now weight"
proof -
  from assms(2) have "inj_on Drink.timestamp (set drinks1)"
    by (simp add: distinct_map)
  with assms(1) have "sort_key Drink.timestamp drinks1 = sort_key Drink.timestamp drinks2"
    by (rule sort_key_eq_sort_key)
  then show ?thesis by (simp add: calculateChartData_def)
qed

text \<open>
  Claim C2, amended.  For two collections of drinks that are permutations of each other
  and that list the drinks of equal timestamp in the same relative order (for every
  timestamp \<open>t\<close>, the drinks stamped \<open>t\<close> form the same sequence in both),
  \<^verbatim>\<open>calculateChartData\<close> returns the same sequence of samples, for every profile
  and every instant \<^verbatim>\<open>now\<close>.
\<close>

theorem calculateChartData_permutation_ties_in_order:
  assumes "mset drinks1 = mset drinks2"
    and "\<forall>t. filter (\<lambda>d. Drink.timestamp d = t) drinks1
             = filter (\<lambda>d. Drink.timestamp d = t) drinks2"
  shows "calculateChartData drinks1 gender now weight =
         calculateChartData drinks2 gender now weight"
proof -
  from assms have "sort_key Drink.timestamp drinks1 = sort_key Drink.timestamp drinks2"
    by (rule sort_key_eq_if_ties_in_order)
  then show ?thesis by (simp add: calculateChartData_def)
qed

theorem calculateChartData_permutation_ties_in_order_witness:
  "mset [\<lparr>Drink.timestamp = 0, volume = 510, alcoholPercentage = 5\<rparr>,
         \<lparr>Drink.timestamp = 0, volume = 340, alcoholPercentage = 5\<rparr>,
         \<lparr>Drink.timestamp = 3600000, volume = 40, alcoholPercentage = 40\<rparr>]
     = mset [\<lparr>Drink.timestamp = 3600000, volume = 40, alcoholPercentage = 40\<rparr>,
             \<lparr>Drink.timestamp = 0, volume = 510, alcoholPercentage = 5\<rparr>,
             \<lparr>Drink.timestamp = 0, volume = 340, alcoholPercentage = 5\<rparr>]
   \<and> (\<forall>t. filter (\<lambda>d. Drink.timestamp d = t)
              [\<lparr>Drink.timestamp = 0, volume = 510, alcoholPercentage = 5\<rparr>,
               \<lparr>Drink.timestamp = 0, volume = 340, alcoholPercentage = 5\<rparr>,
               \<lparr>Drink.timestamp = 3600000, volume = 40, alcoholPercentage = 40\<rparr>]
            = filter (\<lambda>d. Drink.timestamp d = t)
              [\<lparr>Drink.timestamp = 3600000, volume = 40, alcoholPercentage = 40\<rparr>,
               \<lparr>Drink.timestamp = 0, volume = 510, alcoholPercentage = 5\<rparr>,
               \<lparr>Drink.timestamp = 0, volume = 340, alcoholPercentage = 5\<rparr>])
   \<and> calculateChartData
         [\<lparr>Drink.timestamp = 0, volume = 510, alcoholPercentage = 5\<rparr>,
          \<lparr>Drink.timestamp = 0, volume = 340, alcoholPercentage = 5\<rparr>,
          \<lparr>Drink.timestamp = 3600000, volume = 40, alcoholPercentage = 40\<rparr>]
         male 7200000 75
       = calculateChartData
         [\<lparr>Drink.timestamp = 3600000, volume = 40, alcoholPercentage = 40\<rparr>,
          \<lparr>Drink.timestamp = 0, volume = 510, alcoholPercentage = 5\<rparr>,
          \<lparr>Drink.timestamp = 0, volume = 340, alcoholPercentage = 5\<rparr>]
         male 7200000 75"
proof -
  have h1: "mset [\<lparr>Drink.timestamp = 0, volume = 510, alcoholPercentage = 5\<rparr>,
         \<lparr>Drink.timestamp = 0, volume = 340, alcoholPercentage = 5\<rparr>,
         \<lparr>Drink.timestamp = 3600000, volume = 40, alcoholPercentage = 40\<rparr>]
     = mset [\<lparr>Drink.timestamp = 3600000, volume = 40, alcoholPercentage = 40\<rparr>,
             \<lparr>Drink.timestamp = 0, volume = 510, alcoholPercentage = 5\<rparr>,
             \<lparr>Drink.timestamp = 0, volume = 340, alcoholPercentage = 5\<rparr>]"
    by simp
  have h2: "\<forall>t. filter (\<lambda>d. Drink.timestamp d = t)
              [\<lparr>Drink.timestamp = 0, volume = 510, alcoholPercentage = 5\<rparr>,
               \<lparr>Drink.timestamp = 0, volume = 340, alcoholPercentage = 5\<rparr>,
               \<lparr>Drink.timestamp = 3600000, volume = 40, alcoholPercentage = 40\<rparr>]
            = filter (\<lambda>d. Drink.timestamp d = t)
              [\<lparr>Drink.timestamp = 3600000, volume = 40, alcoholPercentage = 40\<rparr>,
               \<lparr>Drink.timestamp = 0, volume = 510, alcoholPercentage = 5\<rparr>,
               \<lparr>Drink.timestamp = 0, volume = 340, alcoholPercentage = 5\<rparr>]"
    by auto
  from h1 h2 calculateChartData_permutation_ties_in_order [OF h1 h2, of male 7200000 75]
  show ?thesis by blast
qed

subsection \<open>The chart against \<^verbatim>\<open>calculateBac\<close>\<close>

text \<open>
  Claim C3 says that the sample that \<^verbatim>\<open>calculateChartData\<close> emits at \<^verbatim>\<open>now\<close> has
  the level that \<^verbatim>\<open>calculateBac\<close> returns at \<^verbatim>\<open>now\<close>.  The code breaks this as soon
  as two drinks are active together: \<^verbatim>\<open>calculateChartData\<close> lets the running total
  decay at 0.015 per hour, \<^verbatim>\<open>calculateBac\<close> lets every drink decay at 0.015 per hour
  on its own.  Two drinks of 510 ml at 5 percent, one hour apart, for a male of 75 kg,
  seen one hour after the second: the chart's sample at \<^verbatim>\<open>now\<close> has level 489/10000
  and the chart reaches zero at 18936000, while \<^verbatim>\<open>calculateBac\<close> returns 339/10000
  at \<^verbatim>\<open>now\<close> and 0 from 13068000 on.  \<^verbatim>\<open>estimateTimeUntilTarget\<close>, fed the value of
  \<^verbatim>\<open>calculateBac\<close>, decays the total at 0.015 per hour as the chart does and gives
  a third sober instant, 15336000.
\<close>

theorem calculateChartData_disagrees_with_calculateBac:
  "calculateChartData
     [\<lparr>Drink.timestamp = 0, volume = 510, alcoholPercentage = 5\<rparr>,
      \<lparr>Drink.timestamp = 3600000, volume = 510, alcoholPercentage = 5\<rparr>] male 7200000 75
     = [\<lparr>DataPoint.timestamp = 0, bac = 0, isPeak = False\<rparr>,
        \<lparr>DataPoint.timestamp = 0, bac = 789 / 20000, isPeak = False\<rparr>,
        \<lparr>DataPoint.timestamp = 3600000, bac = 489 / 20000, isPeak = False\<rparr>,
        \<lparr>DataPoint.timestamp = 3600000, bac = 639 / 10000, isPeak = False\<rparr>,
        \<lparr>DataPoint.timestamp = 7200000, bac = 489 / 10000, isPeak = False\<rparr>,
        \<lparr>DataPoint.timestamp = 18936000, bac = 0, isPeak = False\<rparr>]
   \<and> calculateBac
     [\<lparr>Drink.timestamp = 0, volume = 510, alcoholPercentage = 5\<rparr>,
      \<lparr>Drink.timestamp = 3600000, volume = 510, alcoholPercentage = 5\<rparr>] male 7200000 75
     = 339 / 10000
   \<and> (489 / 10000 :: real) \<noteq> 339 / 10000
   \<and> calculateBac
     [\<lparr>Drink.timestamp = 0, volume = 510, alcoholPercentage = 5\<rparr>,
      \<lparr>Drink.timestamp = 3600000, volume = 510, alcoholPercentage = 5\<rparr>] male 13068000 75
     = 0
   \<and> 7200000 + estimateTimeUntilTarget
       (calculateBac
          [\<lparr>Drink.timestamp = 0, volume = 510, alcoholPercentage = 5\<rparr>,
           \<lparr>Drink.timestamp = 3600000, volume = 510, alcoholPercentage = 5\<rparr>]
          male 7200000 75) 0
     = 15336000"
  by (simp add: calculateChartData_def chart_step_def Let_def METABOLISM_RATE_def
      calculateBac_def estimateTimeUntilTarget_def)

subsection \<open>Chronological order of the samples\<close>

lemma bacIncrease_of_nonneg:
  assumes "0 \<le> volume d" and "0 \<le> alcoholPercentage d" and "0 < weight"
  shows "0 \<le> bacIncrease_of gender weight d"
  using assms GENDER_CONSTANTS_pos [of gender]
  by (simp add: bacIncrease_of_def divide_nonneg_pos)

text \<open>
  An iteration that finds no later drink pushes a chronological tail that starts at the
  drink's time, provided the running level and the increase are not negative.
\<close>

lemma chart_step_None_sorted:
  assumes "List.find (\<lambda>x. Drink.timestamp x > Drink.timestamp d) sd = None"
    and "0 \<le> snd st" and "0 \<le> bacIncrease_of g w d"
  shows "\<exists>tail. map DataPoint.timestamp (fst (chart_step sd g n w st d)) =
                  map DataPoint.timestamp (fst st) @ Drink.timestamp d # tail
               \<and> sorted (Drink.timestamp d # tail)"
proof -
  define cb1 where "cb1 = snd st + bacIncrease_of g w d"
  define zeroTime where
    "zeroTime = Drink.timestamp d + cb1 / METABOLISM_RATE * 60 * 60 * 1000"
  define lvl where
    "lvl = max 0 (cb1 - METABOLISM_RATE * ((n - Drink.timestamp d) / (60 * 60 * 1000)))"
  from assms(2,3) have "0 \<le> cb1" by (simp add: cb1_def)
  then have z: "Drink.timestamp d \<le> zeroTime"
    by (simp add: zeroTime_def METABOLISM_RATE_def)
  have zn: "n \<le> zeroTime" if "0 < lvl"
  proof -
    from that have "cb1 > METABOLISM_RATE * ((n - Drink.timestamp d) / (60 * 60 * 1000))"
      by (simp add: lvl_def max_def split: if_splits)
    then show ?thesis by (simp add: zeroTime_def METABOLISM_RATE_def field_simps)
  qed
  have "map DataPoint.timestamp (fst (chart_step sd g n w st d)) =
          map DataPoint.timestamp (fst st) @ Drink.timestamp d #
            (if n > Drink.timestamp d
             then (if 0 < lvl then [Drink.timestamp d, n, zeroTime]
                   else [Drink.timestamp d, n])
             else [Drink.timestamp d, zeroTime])"
    using assms(1)
    by (simp add: chart_step_def Let_def cb1_def zeroTime_def lvl_def bacIncrease_of_def
        ac_simps)
  moreover have "sorted (Drink.timestamp d #
            (if n > Drink.timestamp d
             then (if 0 < lvl then [Drink.timestamp d, n, zeroTime]
                   else [Drink.timestamp d, n])
             else [Drink.timestamp d, zeroTime]))"
    using z zn by auto
  ultimately show ?thesis by blast
qed

lemma sorted_doubled:
  assumes "sorted (map f ys)"
  shows "sorted (concat (map (\<lambda>y. [f y, f y]) ys))"
  using assms by (induction ys) auto

text \<open>
  When no two drinks share a timestamp (and volumes, percentages and the weight are as
  the data model has them), the samples are in chronological order over the reals: only
  the last drink of the sorted array finds no later drink, and its tail starts at its
  own time.
\<close>

lemma calculateChartData_sorted_if_distinct:
  assumes "distinct (map Drink.timestamp drinks)"
    and "\<forall>d \<in> set drinks. 0 \<le> volume d \<and> 0 \<le> alcoholPercentage d"
    and "0 < weight"
  shows "sorted (map DataPoint.timestamp (calculateChartData drinks gender now weight))"
proof (cases "drinks = []")
  case True
  then show ?thesis by (simp add: calculateChartData_def)
next
  case False
  then obtain ys d where sd: "sort_key Drink.timestamp drinks = ys @ [d]"
    by (rule sort_key_snoc)
  have srt: "sorted (map Drink.timestamp (ys @ [d]))"
    using sorted_sort_key [of Drink.timestamp drinks] by (simp add: sd)
  have dst: "distinct (map Drink.timestamp (ys @ [d]))"
    using assms(1) distinct_map distinct_sort set_sort by (metis sd)
  from srt dst have lt: "\<forall>y \<in> set ys. Drink.timestamp y < Drink.timestamp d"
    by (rule sorted_distinct_last_greatest)
  have some: "\<forall>y \<in> set ys.
      List.find (\<lambda>x. Drink.timestamp x > Drink.timestamp y) (ys @ [d]) \<noteq> None"
    using lt by (auto simp: find_None_iff)
  have none: "List.find (\<lambda>x. Drink.timestamp x > Drink.timestamp d) (ys @ [d]) = None"
    using srt by (rule find_later_last_None)
  have "d \<in> set drinks"
    using sd set_sort [of Drink.timestamp drinks] by auto
  with assms(2,3) have inc: "0 \<le> bacIncrease_of gender weight d"
    by (simp add: bacIncrease_of_nonneg)
  define st where "st = chart_loop (ys @ [d]) gender now weight ([], 0) ys"
  have pre: "map DataPoint.timestamp (fst st) =
               concat (map (\<lambda>y. [Drink.timestamp y, Drink.timestamp y]) ys)"
    and cb: "0 \<le> snd st"
    using chart_loop_prefix [OF some, of "([], 0)" gender now weight]
    by (simp_all add: st_def)
  from chart_step_None_sorted [OF none cb inc, of now] obtain tail
    where tail: "map DataPoint.timestamp (fst (chart_step (ys @ [d]) gender now weight st d))
                   = map DataPoint.timestamp (fst st) @ Drink.timestamp d # tail"
      and stail: "sorted (Drink.timestamp d # tail)"
    by blast
  have "map DataPoint.timestamp (calculateChartData drinks gender now weight) =
      concat (map (\<lambda>y. [Drink.timestamp y, Drink.timestamp y]) ys)
        @ Drink.timestamp d # tail"
    by (simp add: calculateChartData_last_step [OF sd] st_def [symmetric] tail pre)
  moreover have "sorted (concat (map (\<lambda>y. [Drink.timestamp y, Drink.timestamp y]) ys)
                   @ Drink.timestamp d # tail)"
    unfolding sorted_append
  proof (intro conjI ballI)
    from srt have "sorted (map Drink.timestamp ys)" by (simp add: sorted_append)
    then show "sorted (concat (map (\<lambda>y. [Drink.timestamp y, Drink.timestamp y]) ys))"
      by (rule sorted_doubled)
    show "sorted (Drink.timestamp d # tail)" by (rule stail)
    fix a b
    assume a: "a \<in> set (concat (map (\<lambda>y. [Drink.timestamp y, Drink.timestamp y]) ys))"
      and b: "b \<in> set (Drink.timestamp d # tail)"
    from a lt have "a < Drink.timestamp d" by auto
    moreover from b stail have "Drink.timestamp d \<le> b" by auto
    ultimately show "a \<le> b" by simp
  qed
  ultimately show ?thesis by simp
qed

text \<open>
  Claim C1 says that the times of the samples never decrease, whatever the drinks.  The
  code breaks this when two drinks share the latest timestamp: \<^verbatim>\<open>find\<close> looks for a
  strictly later drink, so each of the two is treated as the last one and pushes its own
  tail up to \<^verbatim>\<open>now\<close> and \<^verbatim>\<open>zeroTime\<close>; the second drink's samples then go back to
  the drinks' time.  Two drinks of 510 ml at 5 percent, both logged at time 0, for a male
  of 75 kg, seen one hour later, give the times
  0, 0, 3600000, 9468000, 0, 0, 3600000, 15336000.
\<close>

theorem calculateChartData_tied_timestamps_not_chronological:
  "map DataPoint.timestamp
     (calculateChartData
        [\<lparr>Drink.timestamp = 0, volume = 510, alcoholPercentage = 5\<rparr>,
         \<lparr>Drink.timestamp = 0, volume = 510, alcoholPercentage = 5\<rparr>] male 3600000 75)
     = [0, 0, 3600000, 9468000, 0, 0, 3600000, 15336000]
   \<and> \<not> sorted (map DataPoint.timestamp
         (calculateChartData
            [\<lparr>Drink.timestamp = 0, volume = 510, alcoholPercentage = 5\<rparr>,
             \<lparr>Drink.timestamp = 0, volume = 510, alcoholPercentage = 5\<rparr>]
            male 3600000 75))"
  by (simp add: calculateChartData_def chart_step_def Let_def METABOLISM_RATE_def)

end
